theory Spec2Isabelle
  imports Main
begin

section \<open>Values of the construct library\<close>

text \<open>
  The repository declares cloud resources through the constructs of aws-cdk-lib. A
  construct is declared with \<open>new X(scope, id, props)\<close>; the model keeps, for every
  scope, the list of declared constructs in declaration order, each under its construct
  id with the properties the source passes. A JavaScript reference to a construct
  (\<open>websiteBucket\<close>, \<open>distribution\<close>, \<open>hostedZone\<close>) is modelled by the construct id of
  the object it points to; the ids of one scope are pairwise different.

  Of what the library does on its own when the source's calls run, the model has the
  behaviour that the properties below depend on: the zone name that a zone referenced
  by its id does not have, the list token of the name servers, the grant that the
  origin adds to the bucket policy, and the feature flag of the context that chooses
  how log delivery to a bucket is allowed. Whatever else the library derives from the
  declarations, and its validation of names, is not part of the model.
\<close>

type_synonym construct_id = string

text \<open>
  Attributes that only the provisioning engine knows (an ARN, a generated identifier)
  are tokens inside strings. A string that may contain tokens is a list of fragments.
  \<open>StackAccount\<close> and \<open>StackPartition\<close> are the account and the partition the stack is
  deployed in. \<open>HostedZoneNameServers\<close> is the name-server attribute of a new hosted
  zone: it is a list, and the library encodes the token of a list as a one-element
  array of strings whose element stands for no string.
\<close>

datatype token =
    Lit string
  | StackAccount
  | StackPartition
  | BucketArn construct_id
  | ArnForObjects construct_id string
  | BucketNameOf construct_id
  | DistributionId construct_id
  | DistributionArn construct_id
  | DistributionDomainName construct_id
  | UserNameOf construct_id
  | HostedZoneNameServers construct_id

type_synonym tstring = "token list"

datatype duration = Days nat | Minutes nat

text \<open>
  The enumerations of the library, each with the member the source uses and some of
  its other members.
\<close>

datatype block_public_access = BLOCK_ALL | BLOCK_ACLS
datatype removal_policy = DESTROY | RETAIN | SNAPSHOT
datatype viewer_protocol_policy = HTTPS_ONLY | REDIRECT_TO_HTTPS | VIEWER_ALLOW_ALL
datatype allowed_methods = ALLOW_GET_HEAD | ALLOW_GET_HEAD_OPTIONS | METHODS_ALLOW_ALL
datatype cache_policy = CACHING_OPTIMIZED | CACHING_DISABLED
datatype price_class = PRICE_CLASS_100 | PRICE_CLASS_200 | PRICE_CLASS_ALL
datatype security_policy_protocol = TLS_V1_2_2019 | TLS_V1_2_2021
datatype headers_frame_option = FRAME_DENY | FRAME_SAMEORIGIN
datatype headers_referrer_policy = NO_REFERRER | SAME_ORIGIN | STRICT_ORIGIN_WHEN_CROSS_ORIGIN
datatype effect = ALLOW | DENY
datatype principal = ServicePrincipal string
datatype bucket_access_control = PRIVATE | LOG_DELIVERY_WRITE

section \<open>Properties of the declared constructs\<close>

record lifecycle_rule =
  ruleId :: string
  enabled :: bool
  noncurrentVersionExpiration :: duration

text \<open>
  \<open>serverAccessLogsBucket\<close> is the optional property of the bucket that names a
  separate bucket for the server access logs; \<open>None\<close> is the property left out.
\<close>

record bucket_props =
  bucketName :: string
  blockPublicAccess :: block_public_access
  removalPolicy :: removal_policy
  autoDeleteObjects :: bool
  versioned :: bool
  lifecycleRules :: "lifecycle_rule list"
  serverAccessLogsBucket :: "construct_id option"
  serverAccessLogsPrefix :: "string option"

record policy_statement =
  sid :: "string option"
  effect :: effect
  principals :: "principal list"
  actions :: "string list"
  resources :: "tstring list"
  conditions :: "(string \<times> (string \<times> tstring) list) list"

datatype hosted_zone =
    NewHostedZone string
  | FromHostedZoneId string

datatype certificate_validation = FromDns construct_id

record certificate_props =
  certDomainName :: string
  subjectAlternativeNames :: "string list"
  validation :: certificate_validation

datatype origin = S3BucketOriginWithOriginAccessControl construct_id construct_id

record behavior_options =
  origin :: origin
  viewerProtocolPolicy :: viewer_protocol_policy
  allowedMethods :: allowed_methods
  compress :: bool
  cachePolicy :: cache_policy
  responseHeadersPolicy :: construct_id

record error_response =
  httpStatus :: nat
  responseHttpStatus :: nat
  responsePagePath :: string
  ttl :: duration

record distribution_props =
  defaultBehavior :: behavior_options
  domainNames :: "string list"
  certificate :: construct_id
  priceClass :: price_class
  defaultRootObject :: string
  errorResponses :: "error_response list"
  enableLogging :: bool
  logBucket :: construct_id
  logFilePrefix :: string
  logIncludesCookies :: bool
  minimumProtocolVersion :: security_policy_protocol
  distComment :: string

record strict_transport_security =
  accessControlMaxAge :: duration
  includeSubdomains :: bool
  preload :: bool
  stsOverride :: bool

record frame_options =
  frameOption :: headers_frame_option
  frameOverride :: bool

record referrer_policy =
  referrerPolicy :: headers_referrer_policy
  referrerOverride :: bool

record security_headers_behavior =
  strictTransportSecurity :: strict_transport_security
  contentTypeOptionsOverride :: bool
  frameOptions :: frame_options
  referrerPolicyOptions :: referrer_policy

record custom_header =
  header :: string
  headerValue :: string
  override :: bool

record response_headers_policy_props =
  policyComment :: string
  securityHeadersBehavior :: security_headers_behavior
  customHeaders :: "custom_header list"

datatype record_target = CloudFrontTarget construct_id

record a_record_props =
  zone :: construct_id
  recordName :: string
  target :: record_target

record cfn_output_props =
  outputValue :: tstring
  outputDescription :: string

text \<open>
  A bucket carries its resource policy and its access control list, a user the inline
  policies attached to it: they are changed after the declaration, by
  \<open>addToResourcePolicy\<close>, by the library when it allows log delivery, and by
  \<open>attachInlinePolicy\<close>.
\<close>

datatype resource =
    Bucket bucket_props "policy_statement list" "bucket_access_control option"
  | S3OriginAccessControl string
  | HostedZone hosted_zone
  | Certificate certificate_props
  | ResponseHeadersPolicy response_headers_policy_props
  | Distribution distribution_props
  | ARecord a_record_props
  | User string "construct_id list"
  | Policy "policy_statement list"
  | CfnOutput cfn_output_props

type_synonym constructs = "(construct_id \<times> resource) list"

text \<open>
  The errors of the library that the source's calls run into: reading the zone name of
  a zone that was referenced by its id only, and resolving, as a string, a string that
  holds the token of a list.
\<close>

datatype library_error = CannotReferenceZoneName | EncodedListTokenInScalarContext

record stack_env =
  account :: "string option"
  region :: "string option"

record stack_props =
  domainName :: string
  hostedZoneId :: "string option"
  env :: stack_env
  crossRegionReferences :: bool

text \<open>
  A stack is registered in its scope before its constructor declares anything. When
  the constructor throws, \<open>children\<close> are the constructs declared up to there and
  \<open>thrown\<close> is the error; otherwise \<open>thrown\<close> is \<open>None\<close>.
\<close>

record stack =
  stackProps :: stack_props
  children :: constructs
  thrown :: "library_error option"

datatype error = Error string

text \<open>
  The app holds the context given on the command line (\<open>-c key=value\<close>, so the values
  are strings) and the stacks declared in it. Every construct below the app reads the
  context through its scope.
\<close>

record app =
  appContext :: "string \<rightharpoonup> string"
  stacks :: "(construct_id \<times> stack) list"

definition tryGetContext :: "app \<Rightarrow> string \<Rightarrow> string option" where
  "tryGetContext a k = appContext a k"

section \<open>Operations on a scope\<close>

text \<open>\<open>new X(this, id, props)\<close>: the construct is appended to the scope.\<close>

definition declare_construct :: "construct_id \<Rightarrow> resource \<Rightarrow> constructs \<Rightarrow> constructs" where
  "declare_construct i r cs = cs @ [(i, r)]"

text \<open>\<open>bucket.addToResourcePolicy(statement)\<close> on the bucket with the given id.\<close>

fun addToResourcePolicy :: "construct_id \<Rightarrow> policy_statement \<Rightarrow> constructs \<Rightarrow> constructs" where
  "addToResourcePolicy b st [] = []"
| "addToResourcePolicy b st ((i, Bucket p pol acl) # cs) =
     (if i = b then (i, Bucket p (pol @ [st]) acl) # cs
      else (i, Bucket p pol acl) # addToResourcePolicy b st cs)"
| "addToResourcePolicy b st (c # cs) = c # addToResourcePolicy b st cs"

text \<open>\<open>user.attachInlinePolicy(policy)\<close> on the user with the given id.\<close>

fun attachInlinePolicy :: "construct_id \<Rightarrow> construct_id \<Rightarrow> constructs \<Rightarrow> constructs" where
  "attachInlinePolicy u p [] = []"
| "attachInlinePolicy u p ((i, User n ps) # cs) =
     (if i = u then (i, User n (ps @ [p])) # cs
      else (i, User n ps) # attachInlinePolicy u p cs)"
| "attachInlinePolicy u p (c # cs) = c # attachInlinePolicy u p cs"

text \<open>JavaScript truthiness of a value that is a string or \<open>undefined\<close>.\<close>

fun truthy :: "string option \<Rightarrow> bool" where
  "truthy None = False"
| "truthy (Some s) = (s \<noteq> [])"

section \<open>What the library does in the source's calls\<close>

subsection \<open>Feature flags and log delivery\<close>

text \<open>
  A feature flag is on when the context gives it a truthy value; the flag below is off
  when the context does not set it.
\<close>

definition featureEnabled :: "app \<Rightarrow> string \<Rightarrow> bool" where
  "featureEnabled scope flag = truthy (tryGetContext scope flag)"

definition S3_SERVER_ACCESS_LOGS_USE_BUCKET_POLICY :: string where
  "S3_SERVER_ACCESS_LOGS_USE_BUCKET_POLICY = ''@aws-cdk/aws-s3:serverAccessLogsUseBucketPolicy''"

text \<open>
  \<open>allowLogDelivery\<close> on the bucket \<open>t\<close>, for the logs of the bucket \<open>f\<close> of the same stack:
  with the flag on, the bucket policy of \<open>t\<close> gets a statement for the logging service;
  with the flag off, the access control list of \<open>t\<close> becomes \<open>LOG_DELIVERY_WRITE\<close>.
\<close>

fun allowLogDelivery ::
    "app \<Rightarrow> construct_id \<Rightarrow> construct_id \<Rightarrow> string option \<Rightarrow> constructs \<Rightarrow> constructs" where
  "allowLogDelivery scope t f prefix [] = []"
| "allowLogDelivery scope t f prefix ((i, Bucket p pol acl) # cs) =
     (if i = t
      then (if featureEnabled scope S3_SERVER_ACCESS_LOGS_USE_BUCKET_POLICY
            then (i, Bucket p
                      (pol @
                        [ \<lparr> sid = None,
                            effect = ALLOW,
                            principals = [ServicePrincipal ''logging.s3.amazonaws.com''],
                            actions = [''s3:PutObject''],
                            resources =
                              [[ArnForObjects t
                                  (if truthy prefix then the prefix @ ''*'' else ''*'')]],
                            conditions =
                              [ (''ArnLike'', [(''aws:SourceArn'', [BucketArn f])]),
                                (''StringEquals'',
                                 [(''aws:SourceAccount'', [StackAccount])]) ] \<rparr> ])
                      acl) # cs
            else (i, Bucket p pol (Some LOG_DELIVERY_WRITE)) # cs)
      else (i, Bucket p pol acl) # allowLogDelivery scope t f prefix cs)"
| "allowLogDelivery scope t f prefix (c # cs) = c # allowLogDelivery scope t f prefix cs"

text \<open>
  \<open>new s3.Bucket(this, id, props)\<close>: the bucket is declared with an empty policy. Log
  delivery is allowed to the bucket that \<open>serverAccessLogsBucket\<close> names, and without
  one to the bucket itself when \<open>serverAccessLogsPrefix\<close> is set.
\<close>

definition newBucket :: "app \<Rightarrow> construct_id \<Rightarrow> bucket_props \<Rightarrow> constructs \<Rightarrow> constructs" where
  "newBucket scope i p cs =
     (let cs' = declare_construct i (Bucket p [] None) cs
      in case serverAccessLogsBucket p of
           Some b \<Rightarrow> allowLogDelivery scope b i (serverAccessLogsPrefix p) cs'
         | None \<Rightarrow>
             (if truthy (serverAccessLogsPrefix p)
              then allowLogDelivery scope i i (serverAccessLogsPrefix p) cs'
              else cs'))"

subsection \<open>The origin's grant\<close>

text \<open>
  \<open>new cloudfront.Distribution(this, id, props)\<close> binds the origin of the default
  behaviour. The origin made by \<open>S3BucketOrigin.withOriginAccessControl\<close> then adds
  to the policy of its bucket a statement that lets CloudFront read the objects, on
  condition that the request comes from the distribution being declared.
\<close>

definition newDistribution :: "construct_id \<Rightarrow> distribution_props \<Rightarrow> constructs \<Rightarrow> constructs" where
  "newDistribution i p cs =
     (case origin (defaultBehavior p) of
        S3BucketOriginWithOriginAccessControl b oac \<Rightarrow>
          addToResourcePolicy b
            \<lparr> sid = None,
              effect = ALLOW,
              principals = [ServicePrincipal ''cloudfront.amazonaws.com''],
              actions = [''s3:GetObject''],
              resources = [[ArnForObjects b ''*'']],
              conditions =
                [ (''StringEquals'',
                   [ (''AWS:SourceArn'',
                      [ Lit ''arn:'', StackPartition, Lit '':cloudfront::'', StackAccount,
                        Lit '':distribution/'', DistributionId i ]) ]) ] \<rparr>
            (declare_construct i (Distribution p) cs))"

subsection \<open>Record names and the zone name\<close>

text \<open>
  The zone name of a hosted zone object. A zone made by \<open>HostedZone.fromHostedZoneId\<close>
  knows its id only, and reading its \<open>zoneName\<close> throws.
\<close>

fun zoneName :: "hosted_zone \<Rightarrow> library_error + string" where
  "zoneName (NewHostedZone n) = Inr n"
| "zoneName (FromHostedZoneId z) = Inl CannotReferenceZoneName"

definition endsWith :: "string \<Rightarrow> string \<Rightarrow> bool" where
  "endsWith s t = (length t \<le> length s \<and> drop (length s - length t) s = t)"

text \<open>
  A record set needs the fully qualified name of its record. A name that ends with a
  dot is taken as it is; any other name is completed with the zone name.
\<close>

definition determineFullyQualifiedDomainName ::
    "string \<Rightarrow> hosted_zone \<Rightarrow> library_error + string" where
  "determineFullyQualifiedDomainName providedName z =
     (if endsWith providedName ''.'' then Inr providedName
      else case zoneName z of
             Inl e \<Rightarrow> Inl e
           | Inr zn \<Rightarrow>
               (let hostedZoneName = (if endsWith zn ''.'' then butlast zn else zn);
                    suffix = ''.'' @ hostedZoneName
                in if endsWith providedName suffix \<or> providedName = hostedZoneName
                   then Inr (providedName @ ''.'')
                   else Inr (providedName @ suffix @ ''.'')))"

text \<open>
  \<open>new route53.ARecord(this, id, props)\<close>, with \<open>z\<close> the zone object that \<open>props.zone\<close>
  refers to. The name to qualify is \<open>props.recordName || props.zone.zoneName\<close>. When
  the name cannot be qualified the constructor throws and no record is declared.
\<close>

definition newARecord ::
    "construct_id \<Rightarrow> hosted_zone \<Rightarrow> a_record_props \<Rightarrow> constructs \<Rightarrow> library_error + constructs" where
  "newARecord i z p cs =
     (case (if recordName p \<noteq> [] then Inr (recordName p) else zoneName z) of
        Inl e \<Rightarrow> Inl e
      | Inr providedName \<Rightarrow>
          (case determineFullyQualifiedDomainName providedName z of
             Inl e \<Rightarrow> Inl e
           | Inr fullName \<Rightarrow> Inr (declare_construct i (ARecord p) cs)))"

subsection \<open>The name servers of a new zone\<close>

text \<open>
  \<open>hostedZoneNameServers\<close> of the zone declared with \<open>new route53.HostedZone\<close> under the
  given id: the encoded list token, an array with one string. \<open>join\<close> is the method of
  JavaScript arrays; on an array with one element it gives that element.
\<close>

definition hostedZoneNameServers :: "construct_id \<Rightarrow> tstring list" where
  "hostedZoneNameServers z = [[HostedZoneNameServers z]]"

fun join :: "string \<Rightarrow> tstring list \<Rightarrow> tstring" where
  "join sep [] = []"
| "join sep [x] = x"
| "join sep (x # y # xs) = x @ [Lit sep] @ join sep (y # xs)"

section \<open>The stack: lib/infrastructure-stack.ts\<close>

text \<open>
  \<open>createSecurityHeadersPolicy\<close> declares the response headers policy in the stack and
  returns the reference to it.
\<close>

definition createSecurityHeadersPolicy :: "constructs \<Rightarrow> construct_id \<times> constructs" where
  "createSecurityHeadersPolicy cs =
     (''SecurityHeadersPolicy'',
      declare_construct ''SecurityHeadersPolicy''
        (ResponseHeadersPolicy
          \<lparr> policyComment = ''Security headers for static website'',
            securityHeadersBehavior =
              \<lparr> strictTransportSecurity =
                  \<lparr> accessControlMaxAge = Days 365, includeSubdomains = True,
                    preload = True, stsOverride = True \<rparr>,
                contentTypeOptionsOverride = True,
                frameOptions = \<lparr> frameOption = FRAME_DENY, frameOverride = True \<rparr>,
                referrerPolicyOptions =
                  \<lparr> referrerPolicy = STRICT_ORIGIN_WHEN_CROSS_ORIGIN,
                    referrerOverride = True \<rparr> \<rparr>,
            customHeaders =
              [ \<lparr> header = ''X-Content-Type-Options'', headerValue = ''nosniff'',
                  override = True \<rparr>,
                \<lparr> header = ''X-Frame-Options'', headerValue = ''DENY'', override = True \<rparr>,
                \<lparr> header = ''X-XSS-Protection'', headerValue = ''1; mode=block'',
                  override = True \<rparr>,
                \<lparr> header = ''Permissions-Policy'',
                  headerValue = ''geolocation=(), microphone=(), camera=()'',
                  override = True \<rparr> ] \<rparr>)
        cs)"

text \<open>
  The constructor of \<open>InfrastructureStack\<close>, in the scope \<open>scope\<close>, in three parts that
  follow the order of the source: the hosting (bucket, origin access control, hosted
  zone, certificate, distribution, bucket policy), the two DNS records, and the
  deployment (user, policy, outputs). \<open>c1\<close>, \<open>c2\<close>, ... are the successive contents of
  the stack's scope.
\<close>

text \<open>The object that the source binds to \<open>hostedZone\<close>: the referenced zone or a new one.\<close>

definition hostedZoneObject :: "stack_props \<Rightarrow> hosted_zone" where
  "hostedZoneObject props =
     (if truthy (hostedZoneId props)
      then FromHostedZoneId (the (hostedZoneId props))
      else NewHostedZone (domainName props))"

text \<open>
  The hosting. The properties of the distribution are evaluated before the
  distribution is declared, so the response headers policy is declared first.
\<close>

definition declareHosting :: "app \<Rightarrow> stack_props \<Rightarrow> constructs" where
  "declareHosting scope props =
    (let websiteBucket = ''WebsiteBucket'';
         c1 = newBucket scope websiteBucket
                \<lparr> bucketName = domainName props @ ''-website'',
                  blockPublicAccess = BLOCK_ALL,
                  removalPolicy = DESTROY,
                  autoDeleteObjects = True,
                  versioned = True,
                  lifecycleRules =
                    [ \<lparr> ruleId = ''DeleteOldVersions'', enabled = True,
                        noncurrentVersionExpiration = Days 30 \<rparr> ],
                  serverAccessLogsBucket = None,
                  serverAccessLogsPrefix = Some ''access-logs/'' \<rparr>
                [];
         originAccessControl = ''OriginAccessControl'';
         c2 = declare_construct originAccessControl
                (S3OriginAccessControl (''OAC for '' @ domainName props)) c1;
         hostedZone = ''HostedZone'';
         c3 = declare_construct hostedZone (HostedZone (hostedZoneObject props)) c2;
         certificate = ''Certificate'';
         c4 = declare_construct certificate
                (Certificate
                  \<lparr> certDomainName = domainName props,
                    subjectAlternativeNames = [''www.'' @ domainName props],
                    validation = FromDns hostedZone \<rparr>) c3;
         (securityHeadersPolicy, c5) = createSecurityHeadersPolicy c4;
         distribution = ''Distribution'';
         c6 = newDistribution distribution
                \<lparr> defaultBehavior =
                    \<lparr> origin = S3BucketOriginWithOriginAccessControl websiteBucket
                                 originAccessControl,
                      viewerProtocolPolicy = REDIRECT_TO_HTTPS,
                      allowedMethods = ALLOW_GET_HEAD_OPTIONS,
                      compress = True,
                      cachePolicy = CACHING_OPTIMIZED,
                      responseHeadersPolicy = securityHeadersPolicy \<rparr>,
                  domainNames = [domainName props, ''www.'' @ domainName props],
                  certificate = certificate,
                  priceClass = PRICE_CLASS_100,
                  defaultRootObject = ''index.html'',
                  errorResponses =
                    [ \<lparr> httpStatus = 404, responseHttpStatus = 404,
                        responsePagePath = ''/index.html'', ttl = Minutes 5 \<rparr>,
                      \<lparr> httpStatus = 403, responseHttpStatus = 404,
                        responsePagePath = ''/index.html'', ttl = Minutes 5 \<rparr> ],
                  enableLogging = True,
                  logBucket = websiteBucket,
                  logFilePrefix = ''cloudfront-logs/'',
                  logIncludesCookies = False,
                  minimumProtocolVersion = TLS_V1_2_2021,
                  distComment = ''CloudFront distribution for '' @ domainName props \<rparr> c5;
         c7 = addToResourcePolicy websiteBucket
                \<lparr> sid = Some ''AllowCloudFrontServicePrincipal'',
                  effect = ALLOW,
                  principals = [ServicePrincipal ''cloudfront.amazonaws.com''],
                  actions = [''s3:GetObject''],
                  resources = [[ArnForObjects websiteBucket ''*'']],
                  conditions =
                    [ (''StringEquals'',
                       [ (''AWS:SourceArn'',
                          [ Lit ''arn:aws:cloudfront::'', StackAccount,
                            Lit '':distribution/'', DistributionId distribution ]) ]) ] \<rparr>
                c6
     in c7)"

text \<open>The deployment, declared after the constructs \<open>c9\<close>.\<close>

definition declareDeployment :: "stack_props \<Rightarrow> constructs \<Rightarrow> constructs" where
  "declareDeployment props c9 =
    (let websiteBucket = ''WebsiteBucket'';
         hostedZone = ''HostedZone'';
         distribution = ''Distribution'';
         deploymentUser = ''DeploymentUser'';
         c10 = declare_construct deploymentUser
                 (User (domainName props @ ''-deployment-user'') []) c9;
         deploymentPolicy = ''DeploymentPolicy'';
         c11 = declare_construct deploymentPolicy
                 (Policy
                   [ \<lparr> sid = None,
                       effect = ALLOW,
                       principals = [],
                       actions = [ ''s3:PutObject'', ''s3:PutObjectAcl'', ''s3:GetObject'',
                                   ''s3:DeleteObject'', ''s3:ListBucket'' ],
                       resources = [ [BucketArn websiteBucket],
                                     [ArnForObjects websiteBucket ''*''] ],
                       conditions = [] \<rparr>,
                     \<lparr> sid = None,
                       effect = ALLOW,
                       principals = [],
                       actions = [''cloudfront:CreateInvalidation''],
                       resources = [[DistributionArn distribution]],
                       conditions = [] \<rparr> ]) c10;
         c12 = attachInlinePolicy deploymentUser deploymentPolicy c11;
         c13 = declare_construct ''WebsiteBucketName''
                 (CfnOutput
                   \<lparr> outputValue = [BucketNameOf websiteBucket],
                     outputDescription = ''Name of the S3 bucket for website content'' \<rparr>) c12;
         c14 = declare_construct ''CloudFrontDistributionId''
                 (CfnOutput
                   \<lparr> outputValue = [DistributionId distribution],
                     outputDescription = ''CloudFront Distribution ID'' \<rparr>) c13;
         c15 = declare_construct ''CloudFrontDistributionDomainName''
                 (CfnOutput
                   \<lparr> outputValue = [DistributionDomainName distribution],
                     outputDescription = ''CloudFront Distribution Domain Name'' \<rparr>) c14;
         c16 = declare_construct ''DeploymentUserName''
                 (CfnOutput
                   \<lparr> outputValue = [UserNameOf deploymentUser],
                     outputDescription =
                       ''Name of the deployment user for GitHub Actions'' \<rparr>) c15;
         c17 = declare_construct ''WebsiteUrl''
                 (CfnOutput
                   \<lparr> outputValue = [Lit (''https://'' @ domainName props)],
                     outputDescription = ''Website URL'' \<rparr>) c16;
         c18 = (if \<not> truthy (hostedZoneId props)
                then declare_construct ''NameServers''
                       (CfnOutput
                         \<lparr> outputValue = join '', '' (hostedZoneNameServers hostedZone),
                           outputDescription =
                             ''Name servers for the hosted zone (configure these in domain registrar)'' \<rparr>)
                       c17
                else c17)
     in c18)"

text \<open>
  The whole constructor. It ends where a record cannot be declared: the stack then
  holds what was declared before, and the error.
\<close>

definition InfrastructureStack :: "app \<Rightarrow> stack_props \<Rightarrow> stack" where
  "InfrastructureStack scope props =
    (let hostedZone = ''HostedZone'';
         distribution = ''Distribution'';
         c7 = declareHosting scope props
     in case newARecord ''ARecord'' (hostedZoneObject props)
               \<lparr> zone = hostedZone, recordName = domainName props,
                 target = CloudFrontTarget distribution \<rparr> c7 of
          Inl e \<Rightarrow> \<lparr> stackProps = props, children = c7, thrown = Some e \<rparr>
        | Inr c8 \<Rightarrow>
            (case newARecord ''WwwARecord'' (hostedZoneObject props)
                    \<lparr> zone = hostedZone, recordName = ''www.'' @ domainName props,
                      target = CloudFrontTarget distribution \<rparr> c8 of
               Inl e \<Rightarrow> \<lparr> stackProps = props, children = c8, thrown = Some e \<rparr>
             | Inr c9 \<Rightarrow>
                 \<lparr> stackProps = props, children = declareDeployment props c9,
                   thrown = None \<rparr>))"

section \<open>The entrypoint: bin/infrastructure.ts\<close>

text \<open>
  The script, run with a context and a process environment. The result is the error
  of the script's own \<open>throw\<close>, if it is reached, and the app as it is when the script
  ends; an error thrown inside the constructor of the stack is the \<open>thrown\<close> of that
  stack, which is in the app from the start of its constructor. The stack is only
  constructed past the check of \<open>domainName\<close>, where the value is a string.
\<close>

definition infrastructure ::
    "(string \<rightharpoonup> string) \<Rightarrow> (string \<rightharpoonup> string) \<Rightarrow> error option \<times> app" where
  "infrastructure ctx processEnv =
    (let a = \<lparr> appContext = ctx, stacks = [] \<rparr>;
         domainName = tryGetContext a ''domainName'';
         hostedZoneId = tryGetContext a ''hostedZoneId''
     in if \<not> truthy domainName
        then (Some (Error ''domainName context variable is required. Use: cdk deploy -c domainName=example.com''), a)
        else (None,
              a \<lparr> stacks := stacks a @
                    [ (''PortfolioStack'',
                       InfrastructureStack a
                         \<lparr> domainName = the domainName,
                           hostedZoneId = hostedZoneId,
                           env = \<lparr> account = processEnv ''CDK_DEFAULT_ACCOUNT'',
                                   region = Some ''us-east-1'' \<rparr>,
                           crossRegionReferences = True \<rparr>) ] \<rparr>))"

section \<open>The dependency-update configuration\<close>

text \<open>
  The file is data: a version and a list of update entries. A key that an entry leaves
  out (\<open>include\<close> in the last one) is \<open>None\<close>.
\<close>

record commit_message =
  cm_prefix :: string
  cm_include :: "string option"

record update_entry =
  package_ecosystem :: string
  directory :: string
  schedule_interval :: string
  open_pull_requests_limit :: nat
  reviewers :: "string list"
  assignees :: "string list"
  commit_message :: commit_message

record dependabot =
  version :: nat
  updates :: "update_entry list"

definition dependabot_config :: dependabot where
  "dependabot_config =
    \<lparr> version = 2,
      updates =
        [ \<lparr> package_ecosystem = ''npm'',
            directory = ''/'',
            schedule_interval = ''weekly'',
            open_pull_requests_limit = 10,
            reviewers = [''caleb-wells''],
            assignees = [''caleb-wells''],
            commit_message = \<lparr> cm_prefix = ''deps'', cm_include = Some ''scope'' \<rparr> \<rparr>,
          \<lparr> package_ecosystem = ''npm'',
            directory = ''/infrastructure'',
            schedule_interval = ''weekly'',
            open_pull_requests_limit = 5,
            reviewers = [''caleb-wells''],
            assignees = [''caleb-wells''],
            commit_message =
              \<lparr> cm_prefix = ''deps(infra)'', cm_include = Some ''scope'' \<rparr> \<rparr>,
          \<lparr> package_ecosystem = ''github-actions'',
            directory = ''/'',
            schedule_interval = ''monthly'',
            open_pull_requests_limit = 3,
            reviewers = [''caleb-wells''],
            assignees = [''caleb-wells''],
            commit_message = \<lparr> cm_prefix = ''ci'', cm_include = None \<rparr> \<rparr> ] \<rparr>"

section \<open>Reading a scope\<close>

text \<open>The constructs of one kind declared in a scope, in declaration order.\<close>

definition buckets ::
    "constructs \<Rightarrow> (construct_id \<times> bucket_props \<times> policy_statement list) list" where
  "buckets cs = [(i, p, pol). (i, Bucket p pol acl) \<leftarrow> cs]"


definition hostedZones :: "constructs \<Rightarrow> (construct_id \<times> hosted_zone) list" where
  "hostedZones cs = [(i, z). (i, HostedZone z) \<leftarrow> cs]"

definition certificates :: "constructs \<Rightarrow> (construct_id \<times> certificate_props) list" where
  "certificates cs = [(i, p). (i, Certificate p) \<leftarrow> cs]"

definition distributions :: "constructs \<Rightarrow> (construct_id \<times> distribution_props) list" where
  "distributions cs = [(i, p). (i, Distribution p) \<leftarrow> cs]"

definition aRecords :: "constructs \<Rightarrow> (construct_id \<times> a_record_props) list" where
  "aRecords cs = [(i, p). (i, ARecord p) \<leftarrow> cs]"

definition users :: "constructs \<Rightarrow> (construct_id \<times> string \<times> construct_id list) list" where
  "users cs = [(i, n, ps). (i, User n ps) \<leftarrow> cs]"

definition policies :: "constructs \<Rightarrow> (construct_id \<times> policy_statement list) list" where
  "policies cs = [(i, sts). (i, Policy sts) \<leftarrow> cs]"

definition outputs :: "constructs \<Rightarrow> (construct_id \<times> cfn_output_props) list" where
  "outputs cs = [(i, p). (i, CfnOutput p) \<leftarrow> cs]"

text \<open>The statements of the inline policies attached to the user \<open>u\<close>.\<close>

definition attachedStatements :: "constructs \<Rightarrow> construct_id \<Rightarrow> policy_statement list" where
  "attachedStatements cs u =
     concat [sts. (i, n, ps) \<leftarrow> users cs, i = u, p \<leftarrow> ps, (j, sts) \<leftarrow> policies cs, j = p]"

text \<open>
  The statements of the bucket policies that allow the service principal \<open>sp\<close> the
  action \<open>a\<close>, and the value a statement's conditions give to the key \<open>k\<close> under the
  operator \<open>op\<close>.
\<close>

definition grantsTo :: "constructs \<Rightarrow> string \<Rightarrow> string \<Rightarrow> policy_statement list" where
  "grantsTo cs sp a =
     [st. (i, p, pol) \<leftarrow> buckets cs, st \<leftarrow> pol,
          effect st = ALLOW, ServicePrincipal sp \<in> set (principals st), a \<in> set (actions st)]"

definition conditionValue :: "policy_statement \<Rightarrow> string \<Rightarrow> string \<Rightarrow> tstring option" where
  "conditionValue st op k =
     (case map_of (conditions st) op of None \<Rightarrow> None | Some kvs \<Rightarrow> map_of kvs k)"

text \<open>
  At deployment every token stands for a string; \<open>\<rho>\<close> gives the string of each token.
  A string with tokens is then the concatenation of its fragments.
\<close>

fun resolve :: "(token \<Rightarrow> string) \<Rightarrow> token \<Rightarrow> string" where
  "resolve \<rho> (Lit s) = s"
| "resolve \<rho> t = \<rho> t"

definition render :: "(token \<Rightarrow> string) \<Rightarrow> tstring \<Rightarrow> string" where
  "render \<rho> ts = concat (map (resolve \<rho>) ts)"

text \<open>
  Where the server access logs of the bucket declared under \<open>i\<close> are delivered: to the
  bucket named by \<open>serverAccessLogsBucket\<close>; without it, the construct library delivers
  them to the bucket itself when a prefix is set, and disables them otherwise.
\<close>

definition serverAccessLogsTarget :: "construct_id \<Rightarrow> bucket_props \<Rightarrow> construct_id option" where
  "serverAccessLogsTarget i p =
     (case serverAccessLogsBucket p of
        Some b \<Rightarrow> Some b
      | None \<Rightarrow> (case serverAccessLogsPrefix p of Some _ \<Rightarrow> Some i | None \<Rightarrow> None))"


section \<open>Synthesis\<close>

text \<open>
  Synthesis resolves every string of the declared constructs. A string that holds the
  token of a list cannot be resolved as a string: resolving it throws.
\<close>

fun isListToken :: "token \<Rightarrow> bool" where
  "isListToken (HostedZoneNameServers z) = True"
| "isListToken t = False"

definition resolvable :: "tstring \<Rightarrow> bool" where
  "resolvable ts = (\<not> list_ex isListToken ts)"

definition statementStrings :: "policy_statement \<Rightarrow> tstring list" where
  "statementStrings st = resources st @ concat (map (\<lambda>(op, kvs). map snd kvs) (conditions st))"

fun strings :: "resource \<Rightarrow> tstring list" where
  "strings (Bucket p pol acl) = concat (map statementStrings pol)"
| "strings (Policy sts) = concat (map statementStrings sts)"
| "strings (CfnOutput p) = [outputValue p]"
| "strings r = []"

text \<open>
  The synthesis of a stack: the error of its constructor if it threw, the error of
  resolution if a string cannot be resolved, and otherwise the declared constructs.
\<close>

definition synth :: "stack \<Rightarrow> library_error + constructs" where
  "synth s =
     (case thrown s of
        Some e \<Rightarrow> Inl e
      | None \<Rightarrow>
          (if list_all resolvable (concat (map (\<lambda>(i, r). strings r) (children s)))
           then Inr (children s)
           else Inl EncodedListTokenInScalarContext))"

section \<open>Shared facts about the stack\<close>

lemmas hosting_defs =
  declareHosting_def hostedZoneObject_def createSecurityHeadersPolicy_def
  declare_construct_def newBucket_def newDistribution_def featureEnabled_def
  tryGetContext_def Let_def

lemmas deployment_defs =
  declareDeployment_def declare_construct_def hostedZoneNameServers_def Let_def

text \<open>A record that is declared is appended to the scope.\<close>

lemma newARecord_Inr:
  "newARecord i z p cs = Inr cs' \<Longrightarrow> cs' = cs @ [(i, ARecord p)]"
  by (auto simp: newARecord_def determineFullyQualifiedDomainName_def declare_construct_def Let_def
           split: if_splits sum.splits)


text \<open>The stack keeps the properties it was constructed with.\<close>

lemma stackProps_InfrastructureStack: "stackProps (InfrastructureStack scope props) = props"
  by (simp add: InfrastructureStack_def Let_def split: sum.splits)

text \<open>
  The children of the stack are the hosting, then the records that could be declared,
  then the deployment if both records could.
\<close>

lemma children_InfrastructureStack:
  "children (InfrastructureStack scope props) = declareHosting scope props
   \<or> children (InfrastructureStack scope props) =
        declareHosting scope props @
          [(''ARecord'',
            ARecord \<lparr> zone = ''HostedZone'', recordName = domainName props,
                      target = CloudFrontTarget ''Distribution'' \<rparr>)]
   \<or> children (InfrastructureStack scope props) =
        declareDeployment props
          (declareHosting scope props @
             [(''ARecord'',
               ARecord \<lparr> zone = ''HostedZone'', recordName = domainName props,
                         target = CloudFrontTarget ''Distribution'' \<rparr>),
              (''WwwARecord'',
               ARecord \<lparr> zone = ''HostedZone'', recordName = ''www.'' @ domainName props,
                         target = CloudFrontTarget ''Distribution'' \<rparr>)])"
  by (auto simp: InfrastructureStack_def Let_def split: sum.splits dest!: newARecord_Inr)


text \<open>Attaching a policy to a user changes no construct of another kind.\<close>

lemma buckets_attachInlinePolicy: "buckets (attachInlinePolicy u p cs) = buckets cs"
  by (induction u p cs rule: attachInlinePolicy.induct) (simp_all add: buckets_def)

lemma distributions_attachInlinePolicy:
  "distributions (attachInlinePolicy u p cs) = distributions cs"
  by (induction u p cs rule: attachInlinePolicy.induct) (simp_all add: distributions_def)

lemma certificates_attachInlinePolicy:
  "certificates (attachInlinePolicy u p cs) = certificates cs"
  by (induction u p cs rule: attachInlinePolicy.induct) (simp_all add: certificates_def)

lemma hostedZones_attachInlinePolicy:
  "hostedZones (attachInlinePolicy u p cs) = hostedZones cs"
  by (induction u p cs rule: attachInlinePolicy.induct) (simp_all add: hostedZones_def)

text \<open>Reading a scope goes through appended declarations.\<close>

lemma buckets_append: "buckets (cs @ ds) = buckets cs @ buckets ds"
  by (simp add: buckets_def)

lemma distributions_append: "distributions (cs @ ds) = distributions cs @ distributions ds"
  by (simp add: distributions_def)

lemma certificates_append: "certificates (cs @ ds) = certificates cs @ certificates ds"
  by (simp add: certificates_def)

lemma hostedZones_append: "hostedZones (cs @ ds) = hostedZones cs @ hostedZones ds"
  by (simp add: hostedZones_def)


lemma policies_append: "policies (cs @ ds) = policies cs @ policies ds"
  by (simp add: policies_def)





text \<open>
  The buckets, distributions, certificates and hosted zones of the stack are those of
  the hosting, wherever the constructor ends.
\<close>

lemma buckets_children:
  "buckets (children (InfrastructureStack scope props)) = buckets (declareHosting scope props)"
proof -
  have "buckets (declareDeployment props cs) = buckets cs" for cs
    by (simp add: deployment_defs buckets_attachInlinePolicy buckets_append; simp add: buckets_def)
  then show ?thesis
    using children_InfrastructureStack [of scope props] by (auto simp: buckets_def)
qed

lemma distributions_children:
  "distributions (children (InfrastructureStack scope props)) =
   distributions (declareHosting scope props)"
proof -
  have "distributions (declareDeployment props cs) = distributions cs" for cs
    by (simp add: deployment_defs distributions_attachInlinePolicy distributions_append; simp add: distributions_def)
  then show ?thesis
    using children_InfrastructureStack [of scope props] by (auto simp: distributions_def)
qed

lemma certificates_children:
  "certificates (children (InfrastructureStack scope props)) =
   certificates (declareHosting scope props)"
proof -
  have "certificates (declareDeployment props cs) = certificates cs" for cs
    by (simp add: deployment_defs certificates_attachInlinePolicy certificates_append; simp add: certificates_def)
  then show ?thesis
    using children_InfrastructureStack [of scope props] by (auto simp: certificates_def)
qed

lemma hostedZones_children:
  "hostedZones (children (InfrastructureStack scope props)) =
   hostedZones (declareHosting scope props)"
proof -
  have "hostedZones (declareDeployment props cs) = hostedZones cs" for cs
    by (simp add: deployment_defs hostedZones_attachInlinePolicy hostedZones_append; simp add: hostedZones_def)
  then show ?thesis
    using children_InfrastructureStack [of scope props] by (auto simp: hostedZones_def)
qed


text \<open>The construct ids of the hosting.\<close>

lemma hosting_ids:
  "map fst (declareHosting scope props) =
     [''WebsiteBucket'', ''OriginAccessControl'', ''HostedZone'', ''Certificate'',
      ''SecurityHeadersPolicy'', ''Distribution'']"
  by (simp add: hosting_defs)

text \<open>
  The construct ids of the stack are pairwise different, so a construct id stands for
  one construct of the stack.
\<close>

lemma ids_attachInlinePolicy: "map fst (attachInlinePolicy u p cs) = map fst cs"
  by (induction u p cs rule: attachInlinePolicy.induct) simp_all

lemma construct_ids_distinct:
  "distinct (map fst (children (InfrastructureStack scope props)))"
proof -
  have "map fst (declareDeployment props cs) =
      map fst cs @
        [''DeploymentUser'', ''DeploymentPolicy'', ''WebsiteBucketName'',
         ''CloudFrontDistributionId'', ''CloudFrontDistributionDomainName'',
         ''DeploymentUserName'', ''WebsiteUrl''] @
        (if \<not> truthy (hostedZoneId props) then [''NameServers''] else [])" for cs
    by (simp add: deployment_defs ids_attachInlinePolicy)
  then show ?thesis
    using children_InfrastructureStack [of scope props] hosting_ids [of scope props]
    by auto
qed



section \<open>The entrypoint requires the domain name\<close>

text \<open>
  C1. When the context has no \<open>domainName\<close>, or an empty one, the script throws its
  error and the app holds no stack at that point, so no resource has been declared.
  When the context has a non-empty \<open>domainName\<close>, the script throws no error.
\<close>

theorem infrastructure_requires_domainName:
  "(ctx ''domainName'' = None \<or> ctx ''domainName'' = Some [] \<longrightarrow>
      fst (infrastructure ctx processEnv) =
        Some (Error ''domainName context variable is required. Use: cdk deploy -c domainName=example.com'')
      \<and> stacks (snd (infrastructure ctx processEnv)) = [])
   \<and> ((\<exists>d. ctx ''domainName'' = Some d \<and> d \<noteq> []) \<longrightarrow>
      fst (infrastructure ctx processEnv) = None)"
  by (auto simp: infrastructure_def tryGetContext_def Let_def)

theorem infrastructure_requires_domainName_witness:
  "fst (infrastructure Map.empty Map.empty) =
     Some (Error ''domainName context variable is required. Use: cdk deploy -c domainName=example.com'')
   \<and> stacks (snd (infrastructure Map.empty Map.empty)) = []
   \<and> fst (infrastructure [''domainName'' \<mapsto> []] Map.empty) =
     Some (Error ''domainName context variable is required. Use: cdk deploy -c domainName=example.com'')
   \<and> stacks (snd (infrastructure [''domainName'' \<mapsto> []] Map.empty)) = []
   \<and> fst (infrastructure [''domainName'' \<mapsto> ''example.com''] Map.empty) = None"
  using infrastructure_requires_domainName [of Map.empty Map.empty]
        infrastructure_requires_domainName [of "[''domainName'' \<mapsto> []]" Map.empty]
        infrastructure_requires_domainName [of "[''domainName'' \<mapsto> ''example.com'']" Map.empty]
  by simp

section \<open>The hosted zone\<close>

text \<open>
  C2 (a new zone with a \<open>NameServers\<close> output without a hosted zone id, the referenced
  zone and no such output with one) is not what the code does, on either side. Run with
  the domain \<open>example.com\<close> and the hosted zone id \<open>Z0123456789ABCDEFGHIJ\<close>, the stack references
  the zone by that id, but its constructor throws at the first DNS record, whose name
  needs the zone name that a zone referenced by its id does not have: no record and no
  output is declared. Run with the domain alone, the stack declares a new zone named
  after the domain and an output \<open>NameServers\<close>, but the value of the output is the
  encoded list token of the name servers, which synthesis cannot resolve as a string.
\<close>

theorem hostedZone_fails_with_and_without_id:
  "map (\<lambda>(i, s). (i, thrown s, hostedZones (children s), aRecords (children s),
                   outputs (children s)))
       (stacks (snd (infrastructure
          [''domainName'' \<mapsto> ''example.com'', ''hostedZoneId'' \<mapsto> ''Z0123456789ABCDEFGHIJ'']
          Map.empty))) =
     [(''PortfolioStack'', Some CannotReferenceZoneName,
       [(''HostedZone'', FromHostedZoneId ''Z0123456789ABCDEFGHIJ'')], [], [])]
   \<and> map (\<lambda>(i, s). (i, thrown s, hostedZones (children s),
                     map_of (outputs (children s)) ''NameServers'', synth s))
       (stacks (snd (infrastructure [''domainName'' \<mapsto> ''example.com''] Map.empty))) =
     [(''PortfolioStack'', None, [(''HostedZone'', NewHostedZone ''example.com'')],
       Some \<lparr> outputValue = [HostedZoneNameServers ''HostedZone''],
              outputDescription =
                ''Name servers for the hosted zone (configure these in domain registrar)'' \<rparr>,
       Inl EncodedListTokenInScalarContext)]"
  by (simp add: infrastructure_def InfrastructureStack_def hosting_defs deployment_defs
        newARecord_def determineFullyQualifiedDomainName_def endsWith_def
        hostedZones_def aRecords_def outputs_def synth_def resolvable_def
        statementStrings_def)

section \<open>The bucket policy\<close>

text \<open>
  C3. The bucket's resource policy has two statements that allow the CloudFront service
  principal \<open>s3:GetObject\<close>: the one that the origin adds and the one that the source
  adds. Each has a \<open>StringEquals\<close> condition on \<open>AWS:SourceArn\<close> whose value is a
  CloudFront ARN built from the stack's account and the identifier of \<open>Distribution\<close>,
  the one distribution declared in the stack. Within one partition and account each
  value determines the distribution identifier: another identifier gives another ARN.
\<close>

theorem bucket_policy_names_the_distribution:
  "map (\<lambda>st. (resources st, conditionValue st ''StringEquals'' ''AWS:SourceArn''))
       (grantsTo (children (InfrastructureStack scope props)) ''cloudfront.amazonaws.com''
          ''s3:GetObject'') =
     [([[ArnForObjects ''WebsiteBucket'' ''*'']],
       Some [Lit ''arn:'', StackPartition, Lit '':cloudfront::'', StackAccount,
             Lit '':distribution/'', DistributionId ''Distribution'']),
      ([[ArnForObjects ''WebsiteBucket'' ''*'']],
       Some [Lit ''arn:aws:cloudfront::'', StackAccount, Lit '':distribution/'',
             DistributionId ''Distribution''])]
   \<and> map fst (distributions (children (InfrastructureStack scope props))) = [''Distribution'']
   \<and> render \<rho> [Lit ''arn:'', StackPartition, Lit '':cloudfront::'', StackAccount,
                Lit '':distribution/'', DistributionId ''Distribution''] =
       ''arn:'' @ \<rho> StackPartition @ '':cloudfront::'' @ \<rho> StackAccount @
       '':distribution/'' @ \<rho> (DistributionId ''Distribution'')
   \<and> render \<rho> [Lit ''arn:aws:cloudfront::'', StackAccount, Lit '':distribution/'',
                DistributionId ''Distribution''] =
       ''arn:aws:cloudfront::'' @ \<rho> StackAccount @ '':distribution/'' @
       \<rho> (DistributionId ''Distribution'')
   \<and> (\<rho> StackPartition = \<rho>' StackPartition \<and> \<rho> StackAccount = \<rho>' StackAccount \<and>
        \<rho> (DistributionId ''Distribution'') \<noteq> \<rho>' (DistributionId ''Distribution'') \<longrightarrow>
        render \<rho> [Lit ''arn:'', StackPartition, Lit '':cloudfront::'', StackAccount,
                  Lit '':distribution/'', DistributionId ''Distribution''] \<noteq>
        render \<rho>' [Lit ''arn:'', StackPartition, Lit '':cloudfront::'', StackAccount,
                   Lit '':distribution/'', DistributionId ''Distribution'']
        \<and> render \<rho> [Lit ''arn:aws:cloudfront::'', StackAccount, Lit '':distribution/'',
                    DistributionId ''Distribution''] \<noteq>
          render \<rho>' [Lit ''arn:aws:cloudfront::'', StackAccount, Lit '':distribution/'',
                     DistributionId ''Distribution''])"
proof -
  have grant:
    "map (\<lambda>st. (resources st, conditionValue st ''StringEquals'' ''AWS:SourceArn''))
       (grantsTo (children (InfrastructureStack scope props)) ''cloudfront.amazonaws.com''
          ''s3:GetObject'') =
     [([[ArnForObjects ''WebsiteBucket'' ''*'']],
       Some [Lit ''arn:'', StackPartition, Lit '':cloudfront::'', StackAccount,
             Lit '':distribution/'', DistributionId ''Distribution'']),
      ([[ArnForObjects ''WebsiteBucket'' ''*'']],
       Some [Lit ''arn:aws:cloudfront::'', StackAccount, Lit '':distribution/'',
             DistributionId ''Distribution''])]"
    unfolding grantsTo_def buckets_children
    by (simp add: hosting_defs buckets_def conditionValue_def
          S3_SERVER_ACCESS_LOGS_USE_BUCKET_POLICY_def)
  have dist:
    "map fst (distributions (children (InfrastructureStack scope props))) = [''Distribution'']"
    unfolding distributions_children by (simp add: hosting_defs distributions_def)
  have r1: "render \<sigma> [Lit ''arn:'', StackPartition, Lit '':cloudfront::'', StackAccount,
                Lit '':distribution/'', DistributionId ''Distribution''] =
       ''arn:'' @ \<sigma> StackPartition @ '':cloudfront::'' @ \<sigma> StackAccount @
       '':distribution/'' @ \<sigma> (DistributionId ''Distribution'')" for \<sigma>
    by (simp add: render_def)
  have r2: "render \<sigma> [Lit ''arn:aws:cloudfront::'', StackAccount, Lit '':distribution/'',
                DistributionId ''Distribution''] =
       ''arn:aws:cloudfront::'' @ \<sigma> StackAccount @ '':distribution/'' @
       \<sigma> (DistributionId ''Distribution'')" for \<sigma>
    by (simp add: render_def)
  show ?thesis
    unfolding r1 r2 using grant dist by simp
qed

theorem bucket_policy_names_the_distribution_witness:
  "map (\<lambda>st. (resources st, conditionValue st ''StringEquals'' ''AWS:SourceArn''))
       (grantsTo (children (InfrastructureStack
          \<lparr> appContext = [''domainName'' \<mapsto> ''example.com''], stacks = [] \<rparr>
          \<lparr> domainName = ''example.com'', hostedZoneId = None,
            env = \<lparr> account = Some ''123456789012'', region = Some ''us-east-1'' \<rparr>,
            crossRegionReferences = True \<rparr>)) ''cloudfront.amazonaws.com'' ''s3:GetObject'') =
     [([[ArnForObjects ''WebsiteBucket'' ''*'']],
       Some [Lit ''arn:'', StackPartition, Lit '':cloudfront::'', StackAccount,
             Lit '':distribution/'', DistributionId ''Distribution'']),
      ([[ArnForObjects ''WebsiteBucket'' ''*'']],
       Some [Lit ''arn:aws:cloudfront::'', StackAccount, Lit '':distribution/'',
             DistributionId ''Distribution''])]
   \<and> render (\<lambda>t. case t of StackAccount \<Rightarrow> ''123456789012'' | StackPartition \<Rightarrow> ''aws''
                        | DistributionId i \<Rightarrow> ''E2QWRUHAPOMQZL'' | _ \<Rightarrow> [])
        [Lit ''arn:'', StackPartition, Lit '':cloudfront::'', StackAccount,
         Lit '':distribution/'', DistributionId ''Distribution''] =
       ''arn:aws:cloudfront::123456789012:distribution/E2QWRUHAPOMQZL''
   \<and> render (\<lambda>t. case t of StackAccount \<Rightarrow> ''123456789012'' | StackPartition \<Rightarrow> ''aws''
                        | DistributionId i \<Rightarrow> ''E2QWRUHAPOMQZL'' | _ \<Rightarrow> [])
        [Lit ''arn:'', StackPartition, Lit '':cloudfront::'', StackAccount,
         Lit '':distribution/'', DistributionId ''Distribution''] \<noteq>
       render (\<lambda>t. case t of StackAccount \<Rightarrow> ''123456789012'' | StackPartition \<Rightarrow> ''aws''
                        | DistributionId i \<Rightarrow> ''E1OTHERDISTRO'' | _ \<Rightarrow> [])
        [Lit ''arn:'', StackPartition, Lit '':cloudfront::'', StackAccount,
         Lit '':distribution/'', DistributionId ''Distribution'']
   \<and> render (\<lambda>t. case t of StackAccount \<Rightarrow> ''123456789012'' | StackPartition \<Rightarrow> ''aws''
                        | DistributionId i \<Rightarrow> ''E2QWRUHAPOMQZL'' | _ \<Rightarrow> [])
        [Lit ''arn:aws:cloudfront::'', StackAccount, Lit '':distribution/'',
         DistributionId ''Distribution''] \<noteq>
       render (\<lambda>t. case t of StackAccount \<Rightarrow> ''123456789012'' | StackPartition \<Rightarrow> ''aws''
                        | DistributionId i \<Rightarrow> ''E1OTHERDISTRO'' | _ \<Rightarrow> [])
        [Lit ''arn:aws:cloudfront::'', StackAccount, Lit '':distribution/'',
         DistributionId ''Distribution'']"
  using bucket_policy_names_the_distribution
          [of "\<lparr> appContext = [''domainName'' \<mapsto> ''example.com''], stacks = [] \<rparr>"
              "\<lparr> domainName = ''example.com'', hostedZoneId = None,
                 env = \<lparr> account = Some ''123456789012'', region = Some ''us-east-1'' \<rparr>,
                 crossRegionReferences = True \<rparr>"
              "\<lambda>t. case t of StackAccount \<Rightarrow> ''123456789012'' | StackPartition \<Rightarrow> ''aws''
                        | DistributionId i \<Rightarrow> ''E2QWRUHAPOMQZL'' | _ \<Rightarrow> []"
              "\<lambda>t. case t of StackAccount \<Rightarrow> ''123456789012'' | StackPartition \<Rightarrow> ''aws''
                        | DistributionId i \<Rightarrow> ''E1OTHERDISTRO'' | _ \<Rightarrow> []"]
  by (simp add: render_def)

section \<open>The deployment user's policy\<close>

text \<open>
  C4 (the user's policy has exactly two statements, on the bucket and on the
  distribution) is not what the code does when a hosted zone id is given. Run with
  the domain \<open>example.com\<close> and the hosted zone id \<open>Z0123456789ABCDEFGHIJ\<close>, the
  constructor throws at the first DNS record, before the user and its policy: the stack
  has no user and no policy. Run with the domain alone, the user \<open>DeploymentUser\<close> has
  the two statements attached, on the bucket and its objects and on the distribution.
\<close>

theorem deployment_policy_missing_with_zone_id:
  "map (\<lambda>(i, s). (i, thrown s, users (children s), policies (children s),
                   attachedStatements (children s) ''DeploymentUser''))
       (stacks (snd (infrastructure
          [''domainName'' \<mapsto> ''example.com'', ''hostedZoneId'' \<mapsto> ''Z0123456789ABCDEFGHIJ'']
          Map.empty))) =
     [(''PortfolioStack'', Some CannotReferenceZoneName, [], [], [])]
   \<and> map (\<lambda>(i, s). (i, thrown s, users (children s),
          map (\<lambda>st. (effect st, actions st, resources st))
              (attachedStatements (children s) ''DeploymentUser'')))
       (stacks (snd (infrastructure [''domainName'' \<mapsto> ''example.com''] Map.empty))) =
     [(''PortfolioStack'', None,
       [(''DeploymentUser'', ''example.com-deployment-user'', [''DeploymentPolicy''])],
       [(ALLOW,
         [''s3:PutObject'', ''s3:PutObjectAcl'', ''s3:GetObject'', ''s3:DeleteObject'',
          ''s3:ListBucket''],
         [[BucketArn ''WebsiteBucket''], [ArnForObjects ''WebsiteBucket'' ''*'']]),
        (ALLOW, [''cloudfront:CreateInvalidation''], [[DistributionArn ''Distribution'']])])]"
  by (simp add: infrastructure_def InfrastructureStack_def hosting_defs deployment_defs
        newARecord_def determineFullyQualifiedDomainName_def endsWith_def
        users_def policies_def attachedStatements_def)

section \<open>The DNS records\<close>

text \<open>
  C5 (the records of the domain and of its \<open>www\<close> subdomain alias the same
  distribution) is not what the code does when a hosted zone id is given. Run with
  the domain \<open>example.com\<close> and the hosted zone id \<open>Z0123456789ABCDEFGHIJ\<close>, the
  constructor throws in the first DNS record and the stack has no record. Run with the
  domain alone, the stack has the two records, both with the distribution as alias
  target.
\<close>

theorem a_records_missing_with_zone_id:
  "map (\<lambda>(i, s). (i, thrown s, aRecords (children s), map fst (distributions (children s))))
       (stacks (snd (infrastructure
          [''domainName'' \<mapsto> ''example.com'', ''hostedZoneId'' \<mapsto> ''Z0123456789ABCDEFGHIJ'']
          Map.empty))) =
     [(''PortfolioStack'', Some CannotReferenceZoneName, [], [''Distribution''])]
   \<and> map (\<lambda>(i, s). (i, thrown s, aRecords (children s), map fst (distributions (children s))))
       (stacks (snd (infrastructure [''domainName'' \<mapsto> ''example.com''] Map.empty))) =
     [(''PortfolioStack'', None,
       [(''ARecord'',
         \<lparr> zone = ''HostedZone'', recordName = ''example.com'',
           target = CloudFrontTarget ''Distribution'' \<rparr>),
        (''WwwARecord'',
         \<lparr> zone = ''HostedZone'', recordName = ''www.example.com'',
           target = CloudFrontTarget ''Distribution'' \<rparr>)],
       [''Distribution''])]"
  by (simp add: infrastructure_def InfrastructureStack_def hosting_defs deployment_defs
        newARecord_def determineFullyQualifiedDomainName_def endsWith_def
        aRecords_def distributions_def)

section \<open>The certificate\<close>

text \<open>
  C8. The stack declares exactly one certificate. Its domain name is the domain, its
  only subject alternative name is the \<open>www\<close> subdomain, and it is validated by DNS
  against \<open>HostedZone\<close>, the stack's one hosted zone (new or referenced).
\<close>

theorem certificate_for_domain_and_www:
  "certificates (children (InfrastructureStack scope props)) =
     [(''Certificate'',
       \<lparr> certDomainName = domainName props,
         subjectAlternativeNames = [''www.'' @ domainName props],
         validation = FromDns ''HostedZone'' \<rparr>)]
   \<and> map fst (hostedZones (children (InfrastructureStack scope props))) = [''HostedZone'']"
  unfolding certificates_children hostedZones_children
  by (simp add: hosting_defs certificates_def hostedZones_def)

theorem certificate_for_domain_and_www_witness:
  "certificates (children (InfrastructureStack
      \<lparr> appContext = [''domainName'' \<mapsto> ''example.com''], stacks = [] \<rparr>
      \<lparr> domainName = ''example.com'', hostedZoneId = None,
        env = \<lparr> account = None, region = Some ''us-east-1'' \<rparr>,
        crossRegionReferences = True \<rparr>)) =
     [(''Certificate'',
       \<lparr> certDomainName = ''example.com'',
         subjectAlternativeNames = [''www.example.com''],
         validation = FromDns ''HostedZone'' \<rparr>)]"
  using certificate_for_domain_and_www
          [of "\<lparr> appContext = [''domainName'' \<mapsto> ''example.com''], stacks = [] \<rparr>"
              "\<lparr> domainName = ''example.com'', hostedZoneId = None,
                 env = \<lparr> account = None, region = Some ''us-east-1'' \<rparr>,
                 crossRegionReferences = True \<rparr>"]
  by simp

section \<open>The logs\<close>

text \<open>
  C10. The one bucket of the stack, \<open>WebsiteBucket\<close>, names no separate bucket for its
  server access logs and sets the prefix \<open>access-logs/\<close>, so they are delivered to the
  bucket itself. The one distribution has logging enabled with \<open>WebsiteBucket\<close> as
  log bucket, the prefix \<open>cloudfront-logs/\<close> and no cookies in the logs.
\<close>

theorem logs_go_to_the_website_bucket:
  "map (\<lambda>(i, p, pol). (i, serverAccessLogsBucket p, serverAccessLogsPrefix p,
                       serverAccessLogsTarget i p))
       (buckets (children (InfrastructureStack scope props))) =
     [(''WebsiteBucket'', None, Some ''access-logs/'', Some ''WebsiteBucket'')]
   \<and> map (\<lambda>(i, p). (i, enableLogging p, logBucket p, logFilePrefix p, logIncludesCookies p))
        (distributions (children (InfrastructureStack scope props))) =
     [(''Distribution'', True, ''WebsiteBucket'', ''cloudfront-logs/'', False)]"
  unfolding buckets_children distributions_children
  by (simp add: hosting_defs buckets_def distributions_def serverAccessLogsTarget_def)

theorem logs_go_to_the_website_bucket_witness:
  "map (\<lambda>(i, p, pol). (i, serverAccessLogsTarget i p, serverAccessLogsPrefix p))
       (buckets (children (InfrastructureStack
          \<lparr> appContext = [''domainName'' \<mapsto> ''example.com''], stacks = [] \<rparr>
          \<lparr> domainName = ''example.com'', hostedZoneId = None,
            env = \<lparr> account = None, region = Some ''us-east-1'' \<rparr>,
            crossRegionReferences = True \<rparr>))) =
     [(''WebsiteBucket'', Some ''WebsiteBucket'', Some ''access-logs/'')]
   \<and> map (\<lambda>(i, p). (i, enableLogging p, logBucket p, logFilePrefix p, logIncludesCookies p))
        (distributions (children (InfrastructureStack
          \<lparr> appContext = [''domainName'' \<mapsto> ''example.com''], stacks = [] \<rparr>
          \<lparr> domainName = ''example.com'', hostedZoneId = None,
            env = \<lparr> account = None, region = Some ''us-east-1'' \<rparr>,
            crossRegionReferences = True \<rparr>))) =
     [(''Distribution'', True, ''WebsiteBucket'', ''cloudfront-logs/'', False)]"
  using logs_go_to_the_website_bucket
          [of "\<lparr> appContext = [''domainName'' \<mapsto> ''example.com''], stacks = [] \<rparr>"
              "\<lparr> domainName = ''example.com'', hostedZoneId = None,
                 env = \<lparr> account = None, region = Some ''us-east-1'' \<rparr>,
                 crossRegionReferences = True \<rparr>"]
  unfolding buckets_children distributions_children
  by (simp add: hosting_defs buckets_def distributions_def serverAccessLogsTarget_def)

section \<open>The environment of the stack\<close>

text \<open>
  C7. Every stack the script declares has as account the value of the process
  environment variable \<open>CDK_DEFAULT_ACCOUNT\<close> (undefined when the variable is unset) and
  as region \<open>us-east-1\<close>, whatever the context and the environment are. With a
  non-empty \<open>domainName\<close> the script declares exactly one stack, \<open>PortfolioStack\<close>.
\<close>

theorem stack_env_account_and_region:
  "(\<forall>(i, s) \<in> set (stacks (snd (infrastructure ctx processEnv))).
      account (env (stackProps s)) = processEnv ''CDK_DEFAULT_ACCOUNT''
      \<and> region (env (stackProps s)) = Some ''us-east-1'')
   \<and> ((\<exists>d. ctx ''domainName'' = Some d \<and> d \<noteq> []) \<longrightarrow>
        map (\<lambda>(i, s). (i, account (env (stackProps s)), region (env (stackProps s))))
            (stacks (snd (infrastructure ctx processEnv))) =
        [(''PortfolioStack'', processEnv ''CDK_DEFAULT_ACCOUNT'', Some ''us-east-1'')])"
  by (auto simp: infrastructure_def tryGetContext_def Let_def stackProps_InfrastructureStack)

theorem stack_env_account_and_region_witness:
  "map (\<lambda>(i, s). (i, account (env (stackProps s)), region (env (stackProps s))))
       (stacks (snd (infrastructure [''domainName'' \<mapsto> ''example.com'']
                       [''CDK_DEFAULT_ACCOUNT'' \<mapsto> ''123456789012'',
                        ''CDK_DEFAULT_REGION'' \<mapsto> ''eu-west-1'']))) =
     [(''PortfolioStack'', Some ''123456789012'', Some ''us-east-1'')]"
  using stack_env_account_and_region
          [of "[''domainName'' \<mapsto> ''example.com'']"
              "[''CDK_DEFAULT_ACCOUNT'' \<mapsto> ''123456789012'',
                ''CDK_DEFAULT_REGION'' \<mapsto> ''eu-west-1'']"]
  by simp

section \<open>What synthesis depends on\<close>




section \<open>The dependency-update entries\<close>

text \<open>
  C6. The configuration has exactly three update entries: npm in \<open>/\<close>, npm in
  \<open>/infrastructure\<close> and github-actions in \<open>/\<close>, three different pairs of ecosystem and
  directory. Each entry has its own schedule interval, limit of open pull requests,
  reviewers, assignees and commit-message settings (the prefix, and for the two npm
  entries the inclusion of the scope, which the github-actions entry does not set).
  Replacing one entry by any other entry leaves the other two as they are.
\<close>

theorem dependabot_three_independent_entries:
  "length (updates dependabot_config) = 3
   \<and> map (\<lambda>e. (package_ecosystem e, directory e)) (updates dependabot_config) =
       [(''npm'', ''/''), (''npm'', ''/infrastructure''), (''github-actions'', ''/'')]
   \<and> distinct (map (\<lambda>e. (package_ecosystem e, directory e)) (updates dependabot_config))
   \<and> map schedule_interval (updates dependabot_config) = [''weekly'', ''weekly'', ''monthly'']
   \<and> map open_pull_requests_limit (updates dependabot_config) = [10, 5, 3]
   \<and> map reviewers (updates dependabot_config) =
       [[''caleb-wells''], [''caleb-wells''], [''caleb-wells'']]
   \<and> map assignees (updates dependabot_config) =
       [[''caleb-wells''], [''caleb-wells''], [''caleb-wells'']]
   \<and> map commit_message (updates dependabot_config) =
       [\<lparr> cm_prefix = ''deps'', cm_include = Some ''scope'' \<rparr>,
        \<lparr> cm_prefix = ''deps(infra)'', cm_include = Some ''scope'' \<rparr>,
        \<lparr> cm_prefix = ''ci'', cm_include = None \<rparr>]
   \<and> (i < 3 \<and> j < 3 \<and> i \<noteq> j \<longrightarrow>
        (updates dependabot_config)[i := e] ! j = updates dependabot_config ! j)"
proof -
  have other: "i \<noteq> j \<longrightarrow>
      (updates dependabot_config)[i := e] ! j = updates dependabot_config ! j"
    by simp
  show ?thesis
    by (intro conjI) (simp_all add: other, simp_all add: dependabot_config_def)
qed

theorem dependabot_three_independent_entries_witness:
  "open_pull_requests_limit
     ((updates dependabot_config)
        [0 := (updates dependabot_config ! 0) \<lparr> open_pull_requests_limit := 1 \<rparr>] ! 1) = 5
   \<and> schedule_interval
     ((updates dependabot_config)
        [0 := (updates dependabot_config ! 0) \<lparr> open_pull_requests_limit := 1 \<rparr>] ! 2) =
     ''monthly''"
  using dependabot_three_independent_entries
          [of 0 1 "(updates dependabot_config ! 0) \<lparr> open_pull_requests_limit := 1 \<rparr>"]
        dependabot_three_independent_entries
          [of 0 2 "(updates dependabot_config ! 0) \<lparr> open_pull_requests_limit := 1 \<rparr>"]
  by (simp add: dependabot_config_def)

end
